theory Spec2Isabelle
  imports Main
begin

section \<open>Errors\<close>

text \<open>
  The exceptions of \<^verbatim>\<open>storages.cpp\<close>: \<^verbatim>\<open>std::invalid_argument\<close> (the spec's
  InvalidArgument), \<^verbatim>\<open>std::runtime_error\<close> (the spec's IOError), each with its message,
  and whatever the JSON library throws while parsing or converting (the spec's ParseError).
\<close>

datatype error =
    invalid_argument string
  | runtime_error string
  | json_exception string

section \<open>The platform: paths, a file system, file streams\<close>

subsection \<open>The \<^verbatim>\<open>std::string\<close> searches used by the source\<close>

text \<open>
  \<^verbatim>\<open>s.find_last_of(cs)\<close> and \<^verbatim>\<open>s.find_first_of(cs)\<close> give the index of the last (first)
  character of \<^verbatim>\<open>s\<close> that occurs in \<^verbatim>\<open>cs\<close>, or \<^verbatim>\<open>npos\<close>, here \<open>None\<close>.
  \<^verbatim>\<open>s.substr(0, n)\<close> is the first \<^verbatim>\<open>n\<close> characters, and all of \<^verbatim>\<open>s\<close> when \<^verbatim>\<open>n\<close> is
  \<^verbatim>\<open>npos\<close>.
\<close>

definition find_last_of :: "string \<Rightarrow> string \<Rightarrow> nat option" where
  "find_last_of s cs =
     (let r = dropWhile (\<lambda>c. c \<notin> set cs) (rev s)
      in if r = [] then None else Some (length r - 1))"

definition find_first_of :: "string \<Rightarrow> string \<Rightarrow> nat option" where
  "find_first_of s cs =
     (let r = dropWhile (\<lambda>c. c \<notin> set cs) s
      in if r = [] then None else Some (length s - length r))"

definition substr0 :: "string \<Rightarrow> nat option \<Rightarrow> string" where
  "substr0 s n = (case n of None \<Rightarrow> s | Some k \<Rightarrow> take k s)"

subsection \<open>File system\<close>

text \<open>
  A path names nothing, a directory or a regular file with its bytes. Paths are compared
  as written (no normalisation of \<^verbatim>\<open>.\<close>, \<^verbatim>\<open>..\<close> or repeated slashes); the separator of
  the platform is the slash (the source includes \<^verbatim>\<open>sys/stat.h\<close> and \<^verbatim>\<open>unistd.h\<close>).
  A path without a slash lives in the working directory, which exists, as does the root.
\<close>

datatype node = Dir | File string

type_synonym filesys = "string \<Rightarrow> node option"

definition stat_ok :: "filesys \<Rightarrow> string \<Rightarrow> bool" where
  \<comment> \<open>\<^verbatim>\<open>stat(p, &info) == 0\<close>: something exists at \<^verbatim>\<open>p\<close>; the empty path names nothing\<close>
  "stat_ok fs p \<longleftrightarrow> p \<noteq> [] \<and> fs p \<noteq> None"

definition parent_exists :: "filesys \<Rightarrow> string \<Rightarrow> bool" where
  "parent_exists fs p =
     (case find_last_of p ''/'' of
        None \<Rightarrow> True
      | Some k \<Rightarrow> k = 0 \<or> fs (take k p) = Some Dir)"

definition dir_prefixes :: "string \<Rightarrow> string list" where
  \<comment> \<open>the directory itself preceded by its ancestors, outermost first\<close>
  "dir_prefixes d = [take k d. k \<leftarrow> [1..<length d], d ! k = CHR ''/''] @ [d]"

fun mkdirs :: "string list \<Rightarrow> filesys \<Rightarrow> filesys" where
  "mkdirs [] fs = fs"
| "mkdirs (p # ps) fs =
     (case fs p of
        None \<Rightarrow> mkdirs ps (fs(p \<mapsto> Dir))
      | Some Dir \<Rightarrow> mkdirs ps fs
      | Some (File c) \<Rightarrow> fs)"

definition system_mkdir_p :: "string \<Rightarrow> filesys \<Rightarrow> filesys" where
  \<comment> \<open>\<^verbatim>\<open>std::system(("mkdir -p " + d).c_str())\<close>, exit status ignored as in the source,
      for a \<^verbatim>\<open>d\<close> that the shell hands to \<^verbatim>\<open>mkdir\<close> as one word; with no operand
      \<^verbatim>\<open>mkdir\<close> creates nothing, and it stops at a component that is a regular file\<close>
  "system_mkdir_p d fs = (if d = [] then fs else mkdirs (dir_prefixes d) fs)"

text \<open>
  The source passes \<^verbatim>\<open>base_dir\<close> to the shell unquoted, so white space or shell syntax
  in it changes what command runs, and that command can do anything. \<open>system_mkdir_p\<close>
  describes the call only for a name the shell leaves alone, a \<open>shell_word\<close>: not
  empty, not starting with a dash, made of letters, digits, dots, underscores, dashes
  and slashes. A statement below that lets the call run assumes such a name.
\<close>

definition shell_word :: "string \<Rightarrow> bool" where
  "shell_word d \<longleftrightarrow>
     d \<noteq> [] \<and> hd d \<noteq> CHR ''-''
     \<and> list_all
         (\<lambda>c. c \<in> set ''abcdefghijklmnopqrstuvwxyzABCDEFGHIJKLMNOPQRSTUVWXYZ0123456789._-/'') d"

subsection \<open>Opening files\<close>

datatype openflag = ios_in | ios_out | ios_binary | ios_app

type_synonym openmode = "openflag set"

definition fs_open :: "filesys \<Rightarrow> string \<Rightarrow> openmode \<Rightarrow> filesys option" where
  \<comment> \<open>what \<^verbatim>\<open>basic_filebuf::open\<close> does to the file system: \<open>None\<close> when the open fails.
      Append and write-only modes create a missing file in an existing directory,
      write-only truncates; the modes with \<^verbatim>\<open>in\<close> need something to exist at the path.
      A directory can be opened for input alone, never for output.
      Text and binary modes do not differ.\<close>
  "fs_open fs p m =
     (case fs p of
        Some (File c) \<Rightarrow>
          (if ios_app \<notin> m \<and> ios_in \<notin> m \<and> ios_out \<in> m then Some (fs(p \<mapsto> File []))
           else if ios_app \<in> m \<or> ios_in \<in> m then Some fs
           else None)
      | Some Dir \<Rightarrow>
          (if ios_in \<in> m \<and> ios_out \<notin> m \<and> ios_app \<notin> m then Some fs else None)
      | None \<Rightarrow>
          (if (ios_app \<in> m \<or> (ios_in \<notin> m \<and> ios_out \<in> m))
              \<and> p \<noteq> [] \<and> last p \<noteq> CHR ''/'' \<and> parent_exists fs p
           then Some (fs(p \<mapsto> File []))
           else None))"

subsection \<open>\<^verbatim>\<open>std::fstream\<close>\<close>

text \<open>
  The stream holds the path of its open file (\<open>None\<close> when closed), the mode of the open,
  one file position shared by reads and writes, and the three state bits. Output reaches
  the file at once: the source flushes after its only insertion. A stream open on a
  directory has no bytes: its seeks fail and nothing can be read from it.
\<close>

record fstream =
  fd :: "string option"
  omode :: openmode
  fpos :: nat
  badbit :: bool
  failbit :: bool
  eofbit :: bool

datatype seekdir = ios_beg | ios_end

definition fstream_init :: fstream where
  "fstream_init =
     \<lparr>fd = None, omode = {}, fpos = 0, badbit = False, failbit = False, eofbit = False\<rparr>"

definition fresh_stream :: "string \<Rightarrow> openmode \<Rightarrow> fstream" where
  \<comment> \<open>the stream right after a successful \<^verbatim>\<open>open\<close>: at offset zero, state bits clear\<close>
  "fresh_stream p m =
     \<lparr>fd = Some p, omode = m, fpos = 0, badbit = False, failbit = False, eofbit = False\<rparr>"

definition is_open :: "fstream \<Rightarrow> bool" where
  "is_open st \<longleftrightarrow> fd st \<noteq> None"

definition good :: "fstream \<Rightarrow> bool" where
  "good st \<longleftrightarrow> \<not> badbit st \<and> \<not> failbit st \<and> \<not> eofbit st"

definition bad :: "fstream \<Rightarrow> bool" where
  "bad st \<longleftrightarrow> badbit st"

definition sentry :: "fstream \<Rightarrow> fstream" where
  \<comment> \<open>the sentry of an input or output function: a stream that is not good gets failbit,
      and the function then does nothing more\<close>
  "sentry st = (if good st then st else st\<lparr>failbit := True\<rparr>)"

definition stream_bytes :: "fstream \<Rightarrow> filesys \<Rightarrow> string option" where
  \<comment> \<open>the bytes of the file the stream is open on\<close>
  "stream_bytes st fs =
     (case fd st of
        None \<Rightarrow> None
      | Some p \<Rightarrow> (case fs p of Some (File c) \<Rightarrow> Some c | _ \<Rightarrow> None))"

definition fstream_open :: "fstream \<Rightarrow> string \<Rightarrow> openmode \<Rightarrow> filesys \<Rightarrow> fstream \<times> filesys" where
  \<comment> \<open>\<^verbatim>\<open>open\<close>: fails (failbit) on a stream that is already open or when the file cannot
      be opened; on success the state bits are cleared\<close>
  "fstream_open st p m fs =
     (if is_open st then (st\<lparr>failbit := True\<rparr>, fs)
      else case fs_open fs p m of
             None \<Rightarrow> (st\<lparr>failbit := True\<rparr>, fs)
           | Some fs' \<Rightarrow> (fresh_stream p m, fs'))"

definition fstream_close :: "fstream \<Rightarrow> fstream" where
  \<comment> \<open>\<^verbatim>\<open>close\<close>: failbit when there is nothing to close\<close>
  "fstream_close st = (if is_open st then st\<lparr>fd := None\<rparr> else st\<lparr>failbit := True\<rparr>)"

definition seek_target :: "fstream \<Rightarrow> nat \<Rightarrow> seekdir \<Rightarrow> filesys \<Rightarrow> nat option" where
  \<comment> \<open>\<^verbatim>\<open>rdbuf()->pubseekoff(off, dir)\<close> for a non-negative offset; \<open>None\<close> is failure\<close>
  "seek_target st off dir fs =
     (case stream_bytes st fs of
        None \<Rightarrow> None
      | Some c \<Rightarrow> Some (case dir of ios_beg \<Rightarrow> off | ios_end \<Rightarrow> length c + off))"

definition seekg :: "fstream \<Rightarrow> nat \<Rightarrow> seekdir \<Rightarrow> filesys \<Rightarrow> fstream" where
  \<comment> \<open>\<^verbatim>\<open>seekg(off, dir)\<close>: clears eofbit, then the sentry, then the seek\<close>
  "seekg st off dir fs =
     (let st1 = st\<lparr>eofbit := False\<rparr>
      in if \<not> good st1 then sentry st1
         else case seek_target st1 off dir fs of
                None \<Rightarrow> st1\<lparr>failbit := True\<rparr>
              | Some p \<Rightarrow> st1\<lparr>fpos := p\<rparr>)"

definition tellg :: "fstream \<Rightarrow> fstream \<times> int" where
  \<comment> \<open>\<^verbatim>\<open>tellg()\<close>: the position, or \<^verbatim>\<open>pos_type(-1)\<close> on a failed or closed stream\<close>
  "tellg st =
     (if \<not> good st then (sentry st, - 1)
      else if \<not> is_open st then (st, - 1)
      else (st, int (fpos st)))"

definition seekp :: "fstream \<Rightarrow> nat \<Rightarrow> seekdir \<Rightarrow> filesys \<Rightarrow> fstream" where
  \<comment> \<open>\<^verbatim>\<open>seekp(off, dir)\<close>: the sentry, then the seek\<close>
  "seekp st off dir fs =
     (if \<not> good st then sentry st
      else case seek_target st off dir fs of
             None \<Rightarrow> st\<lparr>failbit := True\<rparr>
           | Some p \<Rightarrow> st\<lparr>fpos := p\<rparr>)"

definition overwrite :: "string \<Rightarrow> nat \<Rightarrow> string \<Rightarrow> string" where
  \<comment> \<open>the file after writing \<^verbatim>\<open>bytes\<close> at offset \<^verbatim>\<open>p\<close>: bytes beyond the written range
      stay, a gap before it reads as zero bytes\<close>
  "overwrite c p bytes =
     take p c @ replicate (p - length c) (CHR 0x00) @ bytes @ drop (p + length bytes) c"

definition put_string :: "fstream \<Rightarrow> string \<Rightarrow> filesys \<Rightarrow> fstream \<times> filesys" where
  \<comment> \<open>\<^verbatim>\<open>stream << bytes\<close>: behind the sentry; badbit when bytes cannot be written
      (stream closed or not opened for output)\<close>
  "put_string st bytes fs =
     (if \<not> good st then (sentry st, fs)
      else if bytes = [] then (st, fs)
      else case (fd st, stream_bytes st fs) of
             (Some p, Some c) \<Rightarrow>
               (if ios_out \<in> omode st \<or> ios_app \<in> omode st
                then (let q = (if ios_app \<in> omode st then length c else fpos st)
                      in (st\<lparr>fpos := q + length bytes\<rparr>, fs(p \<mapsto> File (overwrite c q bytes))))
                else (st\<lparr>badbit := True\<rparr>, fs))
           | _ \<Rightarrow> (st\<lparr>badbit := True\<rparr>, fs))"

definition flush :: "fstream \<Rightarrow> fstream" where
  \<comment> \<open>\<^verbatim>\<open>flush()\<close>: behind the sentry; nothing is pending, so the sync cannot fail\<close>
  "flush st = sentry st"

section \<open>The JSON library\<close>

text \<open>
  \<^verbatim>\<open>json.hpp\<close> is not among the sources. The two places where \<^verbatim>\<open>storages.cpp\<close> calls it are
  parameters of the model, over any type \<open>'d\<close> of datasets:
  \<^item> \<open>dump :: 'd \<Rightarrow> string\<close> is \<^verbatim>\<open>json j = data; j.dump(4)\<close>, the pretty-printed text;
  \<^item> \<open>extract :: fstream \<Rightarrow> string \<Rightarrow> (error + 'd) \<times> fstream\<close> is
    \<^verbatim>\<open>handle_ >> j; return j.get<...>()\<close>: from the stream state and the bytes of the
    file it is open on (the empty text when it is closed), the dataset or the exception, and the
    stream state the extraction leaves.
\<close>

type_synonym 'd dumper = "'d \<Rightarrow> string"

type_synonym 'd extractor = "fstream \<Rightarrow> string \<Rightarrow> (error + 'd) \<times> fstream"

subsection \<open>The parse the spec describes\<close>

text \<open>
  What \<^verbatim>\<open>handle_ >> j\<close> does with bytes that follow a complete value is decided inside
  \<^verbatim>\<open>json.hpp\<close>. The spec describes it: \<^verbatim>\<open>read()\<close> "parses the full file content as a
  JSON document" and fails with ParseError "if the content is not valid JSON"; the
  library's \<^verbatim>\<open>parse(text)\<close> "fails on malformed input". So a document is one value with
  nothing but white space after it. The grammar of a value and its decoding into a
  dataset stay a parameter, \<open>value_of\<close>: it reads one value off the front of a text
  and gives the rest back, or fails. The stream state an extraction leaves is not
  described either, and is the parameter \<open>leave\<close>.
\<close>

type_synonym 'd value_reader = "string \<Rightarrow> ('d \<times> string) option"

definition is_space :: "char \<Rightarrow> bool" where
  \<comment> \<open>the white space of JSON: space, tab, line feed, carriage return\<close>
  "is_space c \<longleftrightarrow> c \<in> set [CHR '' '', CHR 0x09, CHR 0x0A, CHR 0x0D]"

definition parse_error :: error where
  \<comment> \<open>the spec's ParseError\<close>
  "parse_error = json_exception ''parse error''"

text \<open>
  Modelled from the spec: the parse of \<^verbatim>\<open>json.hpp\<close>, which is not among the sources.
  It accepts a text that is one value followed by white space only, and fails with
  ParseError on any other.
\<close>

definition parse_document :: "'d value_reader \<Rightarrow> string \<Rightarrow> error + 'd" where
  "parse_document value_of text =
     (case value_of text of
        None \<Rightarrow> Inl parse_error
      | Some (d, rest) \<Rightarrow> if list_all is_space rest then Inr d else Inl parse_error)"

text \<open>
  Modelled from the spec: the stream extraction \<^verbatim>\<open>handle_ >> j\<close> of \<^verbatim>\<open>json.hpp\<close> with the
  decoding that follows it, as the parse of everything from the stream position to the
  end of the file.
\<close>

definition document_extract ::
  "'d value_reader \<Rightarrow> (fstream \<Rightarrow> string \<Rightarrow> fstream) \<Rightarrow> 'd extractor" where
  "document_extract value_of leave st bytes =
     (parse_document value_of (drop (fpos st) bytes), leave st bytes)"

section \<open>\<^verbatim>\<open>touch\<close>\<close>

definition touch :: "string \<Rightarrow> bool \<Rightarrow> filesys \<Rightarrow> (error + unit) \<times> filesys" where
  "touch path create_dirs fs =
     (let fs1 =
        (if create_dirs then
           (let base_dir = substr0 path (find_last_of path [CHR ''/'', CHR 0x5C])
            in if \<not> stat_ok fs base_dir then system_mkdir_p base_dir fs else fs)
         else fs)
      in case fs_open fs1 path {ios_out, ios_app} of
           None \<Rightarrow> (Inl (runtime_error (''Failed to create or open the file: '' @ path)), fs1)
         | Some fs2 \<Rightarrow> (Inr (), fs2))"

section \<open>\<^verbatim>\<open>JSONStorage\<close>\<close>

text \<open>
  The members \<^verbatim>\<open>path_\<close>, \<^verbatim>\<open>mode_\<close> and \<^verbatim>\<open>handle_\<close> are \<open>path_m\<close>, \<open>mode_m\<close> and
  \<open>handle_m\<close> here (a name cannot end in an underscore), as is \<^verbatim>\<open>memory_\<close> below.
\<close>

record JSONStorage =
  path_m :: string
  mode_m :: string
  handle_m :: fstream

definition modeToOpenMode :: "string \<Rightarrow> error + openmode" where
  "modeToOpenMode mode =
     (if mode = ''r'' then Inr {ios_in}
      else if mode = ''r+'' then Inr ({ios_in} \<union> {ios_out})
      else if mode = ''rb'' then Inr ({ios_in} \<union> {ios_binary})
      else if mode = ''rb+'' then Inr ({ios_in} \<union> {ios_out} \<union> {ios_binary})
      else Inl (invalid_argument (''Invalid access mode: '' @ mode)))"

definition openFile :: "JSONStorage \<Rightarrow> filesys \<Rightarrow> (error + unit) \<times> JSONStorage \<times> filesys" where
  "openFile s fs =
     (case modeToOpenMode (mode_m s) of
        Inl e \<Rightarrow> (Inl e, s, fs)
      | Inr m \<Rightarrow>
          (case fstream_open (handle_m s) (path_m s) m fs of
             (h, fs') \<Rightarrow>
               (if \<not> is_open h
                then (Inl (runtime_error (''Could not open file: '' @ path_m s)),
                      s\<lparr>handle_m := h\<rparr>, fs')
                else (Inr (), s\<lparr>handle_m := h\<rparr>, fs'))))"

definition JSONStorage_new ::
  "string \<Rightarrow> bool \<Rightarrow> string \<Rightarrow> filesys \<Rightarrow> (error + JSONStorage) \<times> filesys" where
  \<comment> \<open>the constructor; an exception leaves no object, only the file system it reached\<close>
  "JSONStorage_new path create_dirs access_mode fs =
     (if access_mode \<noteq> ''r'' \<and> access_mode \<noteq> ''r+'' \<and> access_mode \<noteq> ''rb''
         \<and> access_mode \<noteq> ''rb+''
      then (Inl (invalid_argument (''Invalid access mode: '' @ access_mode)), fs)
      else case (if find_first_of access_mode ''+wa'' \<noteq> None
                 then touch path create_dirs fs else (Inr (), fs)) of
             (Inl e, fs1) \<Rightarrow> (Inl e, fs1)
           | (Inr u, fs1) \<Rightarrow>
               (case openFile \<lparr>path_m = path, mode_m = access_mode, handle_m = fstream_init\<rparr> fs1 of
                  (Inl e, s, fs2) \<Rightarrow> (Inl e, fs2)
                | (Inr u, s, fs2) \<Rightarrow> (Inr s, fs2)))"

definition JSONStorage_read ::
  "'d extractor \<Rightarrow> JSONStorage \<Rightarrow> filesys \<Rightarrow> (error + 'd option) \<times> JSONStorage" where
  "JSONStorage_read extract s fs =
     (let h1 = seekg (handle_m s) 0 ios_end fs
      in case tellg h1 of
           (h2, fsize) \<Rightarrow>
             (if fsize = 0 then (Inr None, s\<lparr>handle_m := h2\<rparr>)
              else (let h3 = seekg h2 0 ios_beg fs
                    in case extract h3 (case stream_bytes h3 fs of None \<Rightarrow> [] | Some c \<Rightarrow> c) of
                         (Inl e, h4) \<Rightarrow> (Inl e, s\<lparr>handle_m := h4\<rparr>)
                       | (Inr d, h4) \<Rightarrow> (Inr (Some d), s\<lparr>handle_m := h4\<rparr>))))"

definition JSONStorage_write ::
  "'d dumper \<Rightarrow> JSONStorage \<Rightarrow> 'd \<Rightarrow> filesys \<Rightarrow> (error + unit) \<times> JSONStorage \<times> filesys" where
  "JSONStorage_write dump s data fs =
     (let h1 = seekp (handle_m s) 0 ios_beg fs
      in case put_string h1 (dump data) fs of
           (h2, fs1) \<Rightarrow>
             (let h3 = flush h2
              in if bad h3
                 then (Inl (runtime_error (''Failed to write data to file: '' @ path_m s)),
                       s\<lparr>handle_m := h3\<rparr>, fs1)
                 else openFile (s\<lparr>handle_m := fstream_close h3\<rparr>) fs1))"

definition JSONStorage_close :: "JSONStorage \<Rightarrow> JSONStorage" where
  "JSONStorage_close s =
     (if is_open (handle_m s) then s\<lparr>handle_m := fstream_close (handle_m s)\<rparr> else s)"

section \<open>\<^verbatim>\<open>MemoryStorage\<close>\<close>

record 'd MemoryStorage =
  memory_m :: "'d option"

definition MemoryStorage_new :: "'d MemoryStorage" where
  "MemoryStorage_new = \<lparr>memory_m = None\<rparr>"

definition MemoryStorage_read :: "'d MemoryStorage \<Rightarrow> 'd option" where
  "MemoryStorage_read s = memory_m s"

definition MemoryStorage_write :: "'d MemoryStorage \<Rightarrow> 'd \<Rightarrow> 'd MemoryStorage" where
  "MemoryStorage_write s data = s\<lparr>memory_m := Some data\<rparr>"

section \<open>Handles in working order\<close>

text \<open>
  A handle is ready when its stream is open on the handle's own path in the mode its mode
  string stands for, with no state bit set: the state the constructor and every
  successful \<^verbatim>\<open>write\<close> leave.
\<close>

definition ready :: "JSONStorage \<Rightarrow> bool" where
  "ready s \<longleftrightarrow>
     fd (handle_m s) = Some (path_m s)
     \<and> modeToOpenMode (mode_m s) = Inr (omode (handle_m s))
     \<and> good (handle_m s)"

section \<open>A miniature JSON library for concrete runs\<close>

text \<open>
  An instance of the two library parameters, small enough to run by hand: a dataset is a
  text without braces, printed between braces; extraction reads one brace-delimited
  value from the stream position and leaves what follows it unread. \<open>brace_value\<close> is
  the same reading as a value reader for the parse the spec describes.
\<close>

definition brace_dump :: "string dumper" where
  "brace_dump d = ''{'' @ d @ ''}''"

definition brace_extract :: "string extractor" where
  "brace_extract st bytes =
     (case drop (fpos st) bytes of
        [] \<Rightarrow> (Inl (json_exception ''unexpected end of input''), st\<lparr>eofbit := True\<rparr>)
      | c # cs \<Rightarrow>
          (if c \<noteq> CHR ''{''
           then (Inl (json_exception ''unexpected character''), st\<lparr>fpos := fpos st + 1\<rparr>)
           else (let body = takeWhile (\<lambda>x. x \<noteq> CHR ''}'') cs
                 in if length body = length cs
                    then (Inl (json_exception ''unexpected end of input''),
                          st\<lparr>fpos := length bytes, eofbit := True\<rparr>)
                    else (Inr body, st\<lparr>fpos := fpos st + length body + 2\<rparr>))))"

text \<open>
  The store of the runs: a directory holding an empty \<^verbatim>\<open>db.json\<close>, a read-write handle
  on it, the directory after writing \<open>''aaaa''\<close>, and a directory \<^verbatim>\<open>d\<close> without
  a file in it.
\<close>

definition brace_value :: "string value_reader" where
  \<comment> \<open>one brace-delimited value off the front of a text, and the rest of the text\<close>
  "brace_value text =
     (case text of
        [] \<Rightarrow> None
      | c # cs \<Rightarrow>
          (if c \<noteq> CHR ''{'' then None
           else (let body = takeWhile (\<lambda>x. x \<noteq> CHR ''}'') cs
                 in if length body = length cs then None
                    else Some (body, drop (Suc (length body)) cs))))"

definition demo_fs :: filesys where
  "demo_fs = [''db.json'' \<mapsto> File []]"

definition demo_storage :: JSONStorage where
  "demo_storage =
     \<lparr>path_m = ''db.json'', mode_m = ''r+'',
      handle_m = fresh_stream ''db.json'' {ios_in, ios_out}\<rparr>"

definition demo_after_A :: filesys where
  "demo_after_A = [''db.json'' \<mapsto> File ''{aaaa}'']"

definition demo_dir :: filesys where
  "demo_dir = [''d'' \<mapsto> Dir]"

section \<open>Facts about the model\<close>

lemma mkdirs_keeps: "fs p = Some n \<Longrightarrow> mkdirs ps fs p = Some n"
proof (induction ps arbitrary: fs)
  case Nil
  then show ?case by simp
next
  case (Cons q ps)
  show ?case
  proof (cases "fs q")
    case None
    with Cons.prems have "q \<noteq> p" by auto
    have "mkdirs ps (fs(q \<mapsto> Dir)) p = Some n"
      by (rule Cons.IH) (use \<open>q \<noteq> p\<close> Cons.prems in simp)
    with None show ?thesis by simp
  next
    case (Some m)
    with Cons show ?thesis by (cases m) simp_all
  qed
qed

lemma system_mkdir_p_keeps: "fs p = Some n \<Longrightarrow> system_mkdir_p d fs p = Some n"
  by (simp add: system_mkdir_p_def mkdirs_keeps)

lemma fs_open_append_existing:
  "fs p = Some (File c) \<Longrightarrow> fs_open fs p {ios_out, ios_app} = Some fs"
  by (simp add: fs_open_def)

lemma fs_open_result_file:
  "ios_out \<in> m \<or> ios_app \<in> m \<Longrightarrow> fs_open fs p m = Some fs' \<Longrightarrow> \<exists>c. fs' p = Some (File c)"
  by (auto simp: fs_open_def split: option.splits node.splits if_splits)

lemma touch_existing:
  assumes "fs path = Some (File c)"
  shows "fst (touch path create_dirs fs) = Inr ()"
    and "snd (touch path create_dirs fs) path = Some (File c)"
  using assms
  by (simp_all add: touch_def Let_def fs_open_append_existing system_mkdir_p_keeps)

lemma touch_ok_file:
  assumes "touch path create_dirs fs = (Inr u, fs')"
  shows "\<exists>c. fs' path = Some (File c)"
proof -
  obtain fs1 where "fs_open fs1 path {ios_out, ios_app} = Some fs'"
    using assms by (auto simp: touch_def Let_def split: option.splits)
  then show ?thesis
    by (rule fs_open_result_file [rotated]) simp
qed

lemma touch_absent:
  assumes "fs path = None" and "path \<noteq> []" and "last path \<noteq> CHR ''/''"
    and "parent_exists fs path"
    and "create_dirs \<longrightarrow> stat_ok fs (substr0 path (find_last_of path [CHR ''/'', CHR 0x5C]))"
  shows "touch path create_dirs fs = (Inr (), fs(path \<mapsto> File []))"
  using assms by (simp add: touch_def Let_def fs_open_def)

lemma fs_open_in_frame: "ios_in \<in> m \<Longrightarrow> ios_app \<notin> m \<Longrightarrow> fs_open fs p m = Some fs' \<Longrightarrow> fs' = fs"
  by (auto simp: fs_open_def split: option.splits node.splits if_splits)

lemma fs_open_in_existing:
  "ios_in \<in> m \<Longrightarrow> fs p = Some (File c) \<Longrightarrow> fs_open fs p m = Some fs"
  by (simp add: fs_open_def)

lemma fs_open_in_missing:
  "ios_in \<in> m \<Longrightarrow> ios_app \<notin> m \<Longrightarrow> fs p = None \<Longrightarrow> fs_open fs p m = None"
  by (simp add: fs_open_def)

lemma modeToOpenMode_in: "modeToOpenMode mode = Inr m \<Longrightarrow> ios_in \<in> m \<and> ios_app \<notin> m"
  by (auto simp: modeToOpenMode_def split: if_splits)

lemma modeToOpenMode_out:
  "modeToOpenMode mode = Inr m \<Longrightarrow> ios_out \<in> m \<longleftrightarrow> mode = ''r+'' \<or> mode = ''rb+''"
  by (auto simp: modeToOpenMode_def split: if_splits)

lemma openFile_frame: "snd (snd (openFile s fs)) = fs"
  by (auto simp: openFile_def fstream_open_def split: sum.splits option.splits prod.splits
      dest: modeToOpenMode_in fs_open_in_frame)

lemma openFile_closed_existing:
  assumes "fd (handle_m s) = None" and "modeToOpenMode (mode_m s) = Inr m"
    and "fs (path_m s) = Some (File c)"
  shows "openFile s fs = (Inr (), s\<lparr>handle_m := fresh_stream (path_m s) m\<rparr>, fs)"
  using assms modeToOpenMode_in [OF assms(2)]
  by (simp add: openFile_def fstream_open_def is_open_def fs_open_in_existing fresh_stream_def)

lemma openFile_closed_missing:
  assumes "fd (handle_m s) = None" and "modeToOpenMode (mode_m s) = Inr m"
    and "fs (path_m s) = None"
  shows "fst (openFile s fs) = Inl (runtime_error (''Could not open file: '' @ path_m s))"
  using assms modeToOpenMode_in [OF assms(2)]
  by (simp add: openFile_def fstream_open_def is_open_def fs_open_in_missing)

lemma openFile_ready: "openFile s fs = (Inr u, s', fs') \<Longrightarrow> fd (handle_m s) = None \<Longrightarrow> ready s'"
  by (auto simp: openFile_def fstream_open_def is_open_def ready_def fresh_stream_def good_def
      split: sum.splits option.splits prod.splits if_splits)

lemma JSONStorage_new_ready:
  "JSONStorage_new path create_dirs mode fs = (Inr s, fs') \<Longrightarrow> ready s \<and> path_m s = path \<and> mode_m s = mode"
  by (auto simp: JSONStorage_new_def openFile_def fstream_open_def is_open_def ready_def
        fresh_stream_def good_def fstream_init_def
      split: sum.splits option.splits prod.splits if_splits)

lemma write_ready:
  assumes "ready s" and "ios_out \<in> omode (handle_m s)" and "fs (path_m s) = Some (File old)"
  shows "JSONStorage_write dump s D fs =
         (Inr (), s\<lparr>handle_m := fresh_stream (path_m s) (omode (handle_m s))\<rparr>,
          fs(path_m s \<mapsto> File (dump D @ drop (length (dump D)) old)))"
proof -
  let ?h = "handle_m s" and ?p = "path_m s"
  from assms(1) have fd: "fd ?h = Some ?p" and m: "modeToOpenMode (mode_m s) = Inr (omode ?h)"
    and g: "good ?h"
    by (simp_all add: ready_def)
  have seek: "seekp ?h 0 ios_beg fs = ?h\<lparr>fpos := 0\<rparr>"
    using fd g assms(3) by (simp add: seekp_def seek_target_def stream_bytes_def)
  let ?fs1 = "fs(?p \<mapsto> File (dump D @ drop (length (dump D)) old))"
  let ?q = "length (dump D)"
  have q: "put_string (?h\<lparr>fpos := 0\<rparr>) (dump D) fs = (?h\<lparr>fpos := ?q\<rparr>, ?fs1)"
  proof (cases "dump D = []")
    case True
    have "fs(?p \<mapsto> File old) = fs"
      using assms(3) by (rule map_upd_triv)
    with True g show ?thesis
      by (simp add: put_string_def good_def)
  next
    case False
    have "ios_app \<notin> omode ?h"
      using modeToOpenMode_in [OF m] by simp
    with False g fd assms(2,3) show ?thesis
      by (simp add: put_string_def good_def stream_bytes_def overwrite_def)
  qed
  have fl: "flush (?h\<lparr>fpos := ?q\<rparr>) = ?h\<lparr>fpos := ?q\<rparr>" and nb: "\<not> bad (?h\<lparr>fpos := ?q\<rparr>)"
    using g by (simp_all add: flush_def sentry_def good_def bad_def)
  have cl: "fstream_close (?h\<lparr>fpos := ?q\<rparr>) = ?h\<lparr>fpos := ?q, fd := None\<rparr>"
    using fd by (simp add: fstream_close_def is_open_def)
  let ?s1 = "s\<lparr>handle_m := ?h\<lparr>fpos := ?q, fd := None\<rparr>\<rparr>"
  have "openFile ?s1 ?fs1 = (Inr (), ?s1\<lparr>handle_m := fresh_stream (path_m ?s1) (omode ?h)\<rparr>, ?fs1)"
    by (rule openFile_closed_existing) (use m in simp_all)
  then show ?thesis
    by (simp add: JSONStorage_write_def seek q fl nb cl)
qed

lemma write_read_only_fails:
  assumes "ready s" and "mode_m s = ''r'' \<or> mode_m s = ''rb''"
    and "fs (path_m s) = Some (File old)" and "dump D \<noteq> []"
  shows "fst (JSONStorage_write dump s D fs)
           = Inl (runtime_error (''Failed to write data to file: '' @ path_m s))
       \<and> snd (snd (JSONStorage_write dump s D fs)) = fs"
proof -
  let ?h = "handle_m s"
  from assms(1) have fd: "fd ?h = Some (path_m s)"
    and m: "modeToOpenMode (mode_m s) = Inr (omode ?h)" and g: "good ?h"
    by (simp_all add: ready_def)
  have no_out: "ios_out \<notin> omode ?h"
    using modeToOpenMode_out [OF m] assms(2) by auto
  have no_app: "ios_app \<notin> omode ?h"
    using modeToOpenMode_in [OF m] by simp
  have seek: "seekp ?h 0 ios_beg fs = ?h\<lparr>fpos := 0\<rparr>"
    using fd g assms(3) by (simp add: seekp_def seek_target_def stream_bytes_def)
  have put: "put_string (?h\<lparr>fpos := 0\<rparr>) (dump D) fs = (?h\<lparr>fpos := 0, badbit := True\<rparr>, fs)"
    using fd g assms(3,4) no_out no_app
    by (simp add: put_string_def good_def stream_bytes_def)
  have "bad (flush (?h\<lparr>fpos := 0, badbit := True\<rparr>))"
    by (simp add: flush_def sentry_def good_def bad_def)
  then show ?thesis
    by (simp add: JSONStorage_write_def seek put)
qed

lemma read_fresh:
  assumes "handle_m s = fresh_stream p m" and "fs p = Some (File c)" and "c \<noteq> []"
  shows "JSONStorage_read extract s fs =
         (case extract (fresh_stream p m) c of
            (Inl e, h) \<Rightarrow> (Inl e, s\<lparr>handle_m := h\<rparr>)
          | (Inr d, h) \<Rightarrow> (Inr (Some d), s\<lparr>handle_m := h\<rparr>))"
  using assms
  by (simp add: JSONStorage_read_def seekg_def tellg_def seek_target_def stream_bytes_def
      fresh_stream_def good_def is_open_def sentry_def)

lemma demo_ready: "ready demo_storage"
  by (simp add: ready_def demo_storage_def fresh_stream_def modeToOpenMode_def good_def insert_commute)

lemma JSONStorage_new_after_touch:
  assumes "mode = ''r+'' \<or> mode = ''rb+''"
    and "touch path create_dirs fs = (Inr (), fs1)"
  shows "\<exists>s. JSONStorage_new path create_dirs mode fs = (Inr s, fs1) \<and> ready s"
proof -
  let ?s0 = "\<lparr>path_m = path, mode_m = mode, handle_m = fstream_init\<rparr>"
  obtain c where c: "fs1 path = Some (File c)"
    using touch_ok_file [of path create_dirs fs "()" fs1] assms(2) by blast
  obtain m where m: "modeToOpenMode mode = Inr m"
    using assms(1) by (auto simp: modeToOpenMode_def)
  have o: "openFile ?s0 fs1 = (Inr (), ?s0\<lparr>handle_m := fresh_stream path m\<rparr>, fs1)"
    using openFile_closed_existing [of ?s0 m fs1 c] m c by (simp add: fstream_init_def)
  have valid: "\<not> (mode \<noteq> ''r'' \<and> mode \<noteq> ''r+'' \<and> mode \<noteq> ''rb'' \<and> mode \<noteq> ''rb+'')"
    using assms(1) by blast
  have plus: "find_first_of mode ''+wa'' \<noteq> None"
    using assms(1) by (elim disjE) (simp_all add: find_first_of_def)
  have new: "JSONStorage_new path create_dirs mode fs
       = (Inr (?s0\<lparr>handle_m := fresh_stream path m\<rparr>), fs1)"
    unfolding JSONStorage_new_def using valid plus
    by (simp only: if_False if_True assms(2) o prod.case sum.case not_False_eq_True)
  have "ready (?s0\<lparr>handle_m := fresh_stream path m\<rparr>)"
    using m by (simp add: ready_def fresh_stream_def good_def)
  with new show ?thesis by blast
qed

lemma ready_after_write:
  assumes "ready s"
  shows "ready (s\<lparr>handle_m := fresh_stream (path_m s) (omode (handle_m s))\<rparr>)"
  using assms by (simp add: ready_def fresh_stream_def good_def)

lemma shell_word_examples: "shell_word ''data.json''" "shell_word ''d''" "\<not> shell_word ''my dir''"
  by (simp_all add: shell_word_def)

lemma JSONStorage_new_read_only_on_directory:
  "JSONStorage_new ''d'' False ''r'' demo_dir
     = (Inr \<lparr>path_m = ''d'', mode_m = ''r'', handle_m = fresh_stream ''d'' {ios_in}\<rparr>, demo_dir)"
  by (simp add: JSONStorage_new_def find_first_of_def openFile_def modeToOpenMode_def
      fstream_open_def is_open_def fstream_init_def fs_open_def demo_dir_def fresh_stream_def)

lemma touch_nested_creates_parent:
  "touch ''d/data.json'' True Map.empty = (Inr (), [''d'' \<mapsto> Dir, ''d/data.json'' \<mapsto> File []])"
  by (simp add: touch_def find_last_of_def substr0_def
      stat_ok_def system_mkdir_p_def dir_prefixes_def fs_open_def parent_exists_def)

lemma touch_without_dirs_creates_file:
  "touch ''data.json'' False Map.empty = (Inr (), [''data.json'' \<mapsto> File []])"
  by (simp add: touch_def find_last_of_def fs_open_def parent_exists_def)

section \<open>Construction\<close>

text \<open>
  Claim C5. Constructing a JSONStorage with an access mode that is not one of
  \<^verbatim>\<open>"r"\<close>, \<^verbatim>\<open>"r+"\<close>, \<^verbatim>\<open>"rb"\<close>, \<^verbatim>\<open>"rb+"\<close> fails with \<^verbatim>\<open>std::invalid_argument\<close>
  (InvalidArgument), whatever the path, the flag and the file system.
\<close>

theorem JSONStorage_new_invalid_mode:
  assumes "mode \<noteq> ''r''" and "mode \<noteq> ''r+''" and "mode \<noteq> ''rb''" and "mode \<noteq> ''rb+''"
  shows "fst (JSONStorage_new path create_dirs mode fs)
         = Inl (invalid_argument (''Invalid access mode: '' @ mode))"
  using assms by (simp add: JSONStorage_new_def)

text \<open>The mode \<^verbatim>\<open>"x"\<close> is rejected.\<close>

theorem JSONStorage_new_invalid_mode_witness:
  "''x'' \<noteq> ''r'' \<and> ''x'' \<noteq> ''r+'' \<and> ''x'' \<noteq> ''rb'' \<and> ''x'' \<noteq> ''rb+''
   \<and> fst (JSONStorage_new ''db.json'' True ''x'' demo_fs)
       = Inl (invalid_argument ''Invalid access mode: x'')"
  using JSONStorage_new_invalid_mode [of "''x''" "''db.json''" True demo_fs] by simp

text \<open>
  Claim C9. With an invalid access mode the constructor changes nothing: the mode is
  checked before \<^verbatim>\<open>touch\<close> and before any open, so the file system after the failed
  construction is the one before it, and no handle results.
\<close>

theorem JSONStorage_new_invalid_mode_no_effect:
  assumes "mode \<noteq> ''r''" and "mode \<noteq> ''r+''" and "mode \<noteq> ''rb''" and "mode \<noteq> ''rb+''"
  shows "snd (JSONStorage_new path create_dirs mode fs) = fs"
  using assms by (simp add: JSONStorage_new_def)

theorem JSONStorage_new_invalid_mode_no_effect_witness:
  "''w+'' \<noteq> ''r'' \<and> ''w+'' \<noteq> ''r+'' \<and> ''w+'' \<noteq> ''rb'' \<and> ''w+'' \<noteq> ''rb+''
   \<and> snd (JSONStorage_new ''dir/new.json'' True ''w+'' Map.empty) = Map.empty"
  using JSONStorage_new_invalid_mode_no_effect [of "''w+''" "''dir/new.json''" True Map.empty]
  by simp

text \<open>
  Claim C10. With a read-only access mode (\<^verbatim>\<open>"r"\<close> or \<^verbatim>\<open>"rb"\<close>) the constructor never
  calls \<^verbatim>\<open>touch\<close>: the file system is unchanged even with \<^verbatim>\<open>create_dirs\<close> set, and
  when nothing exists at the path the construction fails with \<^verbatim>\<open>std::runtime_error\<close>
  "Could not open file".
\<close>

theorem JSONStorage_new_read_only:
  assumes "mode = ''r'' \<or> mode = ''rb''"
  shows "snd (JSONStorage_new path create_dirs mode fs) = fs
       \<and> (fs path = None \<longrightarrow>
            fst (JSONStorage_new path create_dirs mode fs)
            = Inl (runtime_error (''Could not open file: '' @ path)))"
proof -
  let ?s0 = "\<lparr>path_m = path, mode_m = mode, handle_m = fstream_init\<rparr>"
  obtain m where m: "modeToOpenMode (mode_m ?s0) = Inr m"
    using assms by (auto simp: modeToOpenMode_def)
  have closed: "fd (handle_m ?s0) = None"
    by (simp add: fstream_init_def)
  have untouched: "find_first_of mode ''+wa'' = None"
    using assms by (auto simp: find_first_of_def)
  have new: "JSONStorage_new path create_dirs mode fs =
      (case openFile ?s0 fs of (Inl e, s, fs2) \<Rightarrow> (Inl e, fs2) | (Inr u, s, fs2) \<Rightarrow> (Inr s, fs2))"
    using assms untouched by (auto simp: JSONStorage_new_def)
  have frame: "snd (JSONStorage_new path create_dirs mode fs) = fs"
    using openFile_frame [of ?s0 fs] unfolding new
    by (auto split: prod.splits sum.splits)
  have missing: "fst (JSONStorage_new path create_dirs mode fs)
            = Inl (runtime_error (''Could not open file: '' @ path))" if "fs path = None"
  proof -
    have "fst (openFile ?s0 fs) = Inl (runtime_error (''Could not open file: '' @ path))"
      using openFile_closed_missing [OF closed m, where fs = fs] that by simp
    then show ?thesis
      unfolding new by (cases "openFile ?s0 fs") (auto split: sum.splits)
  qed
  from frame missing show ?thesis by blast
qed

theorem JSONStorage_new_read_only_witness:
  "(''r'' = ''r'' \<or> ''r'' = ''rb'')
   \<and> snd (JSONStorage_new ''dir/new.json'' True ''r'' Map.empty) = Map.empty
   \<and> Map.empty ''dir/new.json'' = (None :: node option)
   \<and> fst (JSONStorage_new ''dir/new.json'' True ''r'' Map.empty)
       = Inl (runtime_error ''Could not open file: dir/new.json'')"
  using JSONStorage_new_read_only [of "''r''" "''dir/new.json''" True Map.empty] by simp

text \<open>
  Claim C6. Let the access mode be valid and signal write or append intent (it contains
  one of the characters \<^verbatim>\<open>+wa\<close>), and let \<^verbatim>\<open>create_dirs\<close>, when set, find \<^verbatim>\<open>base_dir\<close>
  present or be a plain word for the shell. Then the constructor ensures the file exists
  through \<^verbatim>\<open>touch\<close>, which opens it for appending and closes it:
  \<^item> a regular file already at the path keeps its content, through \<^verbatim>\<open>touch\<close> and through
    the whole construction, which succeeds with a handle in working order;
  \<^item> when nothing is at the path, the path names a file in an existing directory, and
    \<^verbatim>\<open>mkdir\<close> is not called, \<^verbatim>\<open>touch\<close> creates the file, empty, and changes nothing
    else, and the construction succeeds on it.
\<close>

theorem JSONStorage_new_ensures_file:
  assumes "mode = ''r'' \<or> mode = ''r+'' \<or> mode = ''rb'' \<or> mode = ''rb+''"
    and "find_first_of mode ''+wa'' \<noteq> None"
    and "create_dirs \<longrightarrow>
           stat_ok fs (substr0 path (find_last_of path [CHR ''/'', CHR 0x5C]))
         \<or> shell_word (substr0 path (find_last_of path [CHR ''/'', CHR 0x5C]))"
  shows "(fs path = Some (File c) \<longrightarrow>
            fst (touch path create_dirs fs) = Inr ()
          \<and> snd (touch path create_dirs fs) path = Some (File c)
          \<and> (\<exists>s. fst (JSONStorage_new path create_dirs mode fs) = Inr s \<and> ready s)
          \<and> snd (JSONStorage_new path create_dirs mode fs) path = Some (File c))
       \<and> (fs path = None \<and> path \<noteq> [] \<and> last path \<noteq> CHR ''/'' \<and> parent_exists fs path
          \<and> (create_dirs \<longrightarrow>
                stat_ok fs (substr0 path (find_last_of path [CHR ''/'', CHR 0x5C]))) \<longrightarrow>
            touch path create_dirs fs = (Inr (), fs(path \<mapsto> File []))
          \<and> (\<exists>s. JSONStorage_new path create_dirs mode fs = (Inr s, fs(path \<mapsto> File []))
                 \<and> ready s))"
proof -
  have rw: "mode = ''r+'' \<or> mode = ''rb+''"
    using assms(1,2) by (elim disjE) (simp_all add: find_first_of_def)
  have kept: "fst (touch path create_dirs fs) = Inr ()
          \<and> snd (touch path create_dirs fs) path = Some (File c)
          \<and> (\<exists>s. fst (JSONStorage_new path create_dirs mode fs) = Inr s \<and> ready s)
          \<and> snd (JSONStorage_new path create_dirs mode fs) path = Some (File c)"
    if ex: "fs path = Some (File c)"
  proof -
    have t1: "fst (touch path create_dirs fs) = Inr ()"
      and t2: "snd (touch path create_dirs fs) path = Some (File c)"
      using touch_existing [of fs path c create_dirs] ex by simp_all
    obtain fs1 where t: "touch path create_dirs fs = (Inr (), fs1)"
      and fs1: "fs1 path = Some (File c)"
      using t1 t2 by (cases "touch path create_dirs fs") auto
    obtain s where "JSONStorage_new path create_dirs mode fs = (Inr s, fs1)" and "ready s"
      using JSONStorage_new_after_touch [OF rw t] by blast
    with t1 t2 fs1 show ?thesis by auto
  qed
  have made: "touch path create_dirs fs = (Inr (), fs(path \<mapsto> File []))
          \<and> (\<exists>s. JSONStorage_new path create_dirs mode fs = (Inr s, fs(path \<mapsto> File []))
                 \<and> ready s)"
    if "fs path = None" and "path \<noteq> []" and "last path \<noteq> CHR ''/''"
      and "parent_exists fs path"
      and "create_dirs \<longrightarrow>
             stat_ok fs (substr0 path (find_last_of path [CHR ''/'', CHR 0x5C]))"
  proof -
    have t: "touch path create_dirs fs = (Inr (), fs(path \<mapsto> File []))"
      using that by (rule touch_absent)
    from JSONStorage_new_after_touch [OF rw t] t show ?thesis by blast
  qed
  from kept made show ?thesis by blast
qed

theorem JSONStorage_new_ensures_file_witness:
  "(''r+'' = ''r'' \<or> ''r+'' = ''r+'' \<or> ''r+'' = ''rb'' \<or> ''r+'' = ''rb+'')
   \<and> find_first_of ''r+'' ''+wa'' \<noteq> None
   \<and> stat_ok demo_after_A (substr0 ''db.json'' (find_last_of ''db.json'' [CHR ''/'', CHR 0x5C]))
   \<and> demo_after_A ''db.json'' = Some (File ''{aaaa}'')
   \<and> fst (touch ''db.json'' True demo_after_A) = Inr ()
   \<and> snd (touch ''db.json'' True demo_after_A) ''db.json'' = Some (File ''{aaaa}'')
   \<and> (\<exists>s. fst (JSONStorage_new ''db.json'' True ''r+'' demo_after_A) = Inr s \<and> ready s)
   \<and> snd (JSONStorage_new ''db.json'' True ''r+'' demo_after_A) ''db.json''
       = Some (File ''{aaaa}'')
   \<and> stat_ok demo_dir (substr0 ''d/new.json'' (find_last_of ''d/new.json'' [CHR ''/'', CHR 0x5C]))
   \<and> demo_dir ''d/new.json'' = None
   \<and> ''d/new.json'' \<noteq> [] \<and> last ''d/new.json'' \<noteq> CHR ''/''
   \<and> parent_exists demo_dir ''d/new.json''
   \<and> touch ''d/new.json'' True demo_dir = (Inr (), demo_dir(''d/new.json'' \<mapsto> File []))
   \<and> (\<exists>s. JSONStorage_new ''d/new.json'' True ''r+'' demo_dir
            = (Inr s, demo_dir(''d/new.json'' \<mapsto> File [])) \<and> ready s)"
proof -
  have 1: "''r+'' = ''r'' \<or> ''r+'' = ''r+'' \<or> ''r+'' = ''rb'' \<or> ''r+'' = ''rb+''"
    by simp
  have 2: "find_first_of ''r+'' ''+wa'' \<noteq> None"
    by (simp add: find_first_of_def)
  have 3: "stat_ok demo_after_A
             (substr0 ''db.json'' (find_last_of ''db.json'' [CHR ''/'', CHR 0x5C]))"
    by (simp add: stat_ok_def substr0_def find_last_of_def demo_after_A_def)
  have 4: "demo_after_A ''db.json'' = Some (File ''{aaaa}'')"
    by (simp add: demo_after_A_def)
  have 5: "stat_ok demo_dir
             (substr0 ''d/new.json'' (find_last_of ''d/new.json'' [CHR ''/'', CHR 0x5C]))"
    by (simp add: stat_ok_def substr0_def find_last_of_def demo_dir_def)
  have 6: "demo_dir ''d/new.json'' = None"
    by (simp add: demo_dir_def)
  have 7: "''d/new.json'' \<noteq> [] \<and> last ''d/new.json'' \<noteq> CHR ''/''"
    by simp
  have 8: "parent_exists demo_dir ''d/new.json''"
    by (simp add: parent_exists_def find_last_of_def demo_dir_def)
  from JSONStorage_new_ensures_file
         [of "''r+''" True demo_after_A "''db.json''" "''{aaaa}''"] 1 2 3 4
  have a: "fst (touch ''db.json'' True demo_after_A) = Inr ()
     \<and> snd (touch ''db.json'' True demo_after_A) ''db.json'' = Some (File ''{aaaa}'')
     \<and> (\<exists>s. fst (JSONStorage_new ''db.json'' True ''r+'' demo_after_A) = Inr s \<and> ready s)
     \<and> snd (JSONStorage_new ''db.json'' True ''r+'' demo_after_A) ''db.json''
         = Some (File ''{aaaa}'')"
    by blast
  from JSONStorage_new_ensures_file
         [of "''r+''" True demo_dir "''d/new.json''"] 1 2 5 6 7 8
  have b: "touch ''d/new.json'' True demo_dir = (Inr (), demo_dir(''d/new.json'' \<mapsto> File []))
     \<and> (\<exists>s. JSONStorage_new ''d/new.json'' True ''r+'' demo_dir
              = (Inr s, demo_dir(''d/new.json'' \<mapsto> File [])) \<and> ready s)"
    by blast
  from 1 2 3 4 5 6 7 8 a b show ?thesis by blast
qed

text \<open>
  Claim C8 (the code departs from it). For a path without a separator
  \<^verbatim>\<open>find_last_of\<close> returns \<^verbatim>\<open>npos\<close>, so \<^verbatim>\<open>base_dir\<close> is the whole path and not its
  parent directory: with \<^verbatim>\<open>create_dirs\<close> set and nothing at \<^verbatim>\<open>data.json\<close>, \<^verbatim>\<open>touch\<close>
  makes a directory named \<^verbatim>\<open>data.json\<close> and then fails to open the file. This is the
  call of \<^verbatim>\<open>main\<close>, run where \<^verbatim>\<open>data.json\<close> does not exist yet.
\<close>

theorem touch_bare_name_makes_directory:
  "substr0 ''data.json'' (find_last_of ''data.json'' [CHR ''/'', CHR 0x5C]) = ''data.json''
   \<and> touch ''data.json'' True Map.empty
       = (Inl (runtime_error ''Failed to create or open the file: data.json''),
          [''data.json'' \<mapsto> Dir])
   \<and> JSONStorage_new ''data.json'' True ''r+'' Map.empty
       = (Inl (runtime_error ''Failed to create or open the file: data.json''),
          [''data.json'' \<mapsto> Dir])"
  by (simp add: JSONStorage_new_def find_first_of_def touch_def find_last_of_def substr0_def
      stat_ok_def system_mkdir_p_def dir_prefixes_def fs_open_def)

section \<open>Writing and reading back\<close>

text \<open>
  Claim C1. On a ready handle opened read-write, when the file's prior content is no
  longer than the serialization of \<open>D\<close>, \<^verbatim>\<open>write(D)\<close> succeeds and the \<^verbatim>\<open>read()\<close>
  that follows returns \<open>D\<close>. The JSON library enters through its contract only: the
  serialization is not empty, and extraction from a stream at the start of exactly that
  text gives \<open>D\<close> back.
\<close>

theorem write_then_read_roundtrip:
  assumes "ready s"
    and "mode_m s = ''r+'' \<or> mode_m s = ''rb+''"
    and "fs (path_m s) = Some (File old)"
    and "length old \<le> length (dump D)"
    and "dump D \<noteq> []"
    and "fst (extract (fresh_stream (path_m s) (omode (handle_m s))) (dump D)) = Inr D"
  shows "\<exists>s' fs'. JSONStorage_write dump s D fs = (Inr (), s', fs')
           \<and> fst (JSONStorage_read extract s' fs') = Inr (Some D)"
proof -
  let ?m = "omode (handle_m s)"
  let ?s' = "s\<lparr>handle_m := fresh_stream (path_m s) ?m\<rparr>"
  let ?fs' = "fs(path_m s \<mapsto> File (dump D))"
  from assms(1) have "modeToOpenMode (mode_m s) = Inr ?m"
    by (simp add: ready_def)
  with assms(2) have out: "ios_out \<in> ?m"
    by (simp add: modeToOpenMode_out)
  have w: "JSONStorage_write dump s D fs = (Inr (), ?s', ?fs')"
    using write_ready [where s = s and fs = fs and old = old and dump = dump and D = D]
      assms(1,3,4) out by simp
  have "JSONStorage_read extract ?s' ?fs' =
         (case extract (fresh_stream (path_m s) ?m) (dump D) of
            (Inl e, h) \<Rightarrow> (Inl e, ?s'\<lparr>handle_m := h\<rparr>)
          | (Inr d, h) \<Rightarrow> (Inr (Some d), ?s'\<lparr>handle_m := h\<rparr>))"
    by (rule read_fresh) (use assms(5) in simp_all)
  with assms(6) have "fst (JSONStorage_read extract ?s' ?fs') = Inr (Some D)"
    by (cases "extract (fresh_stream (path_m s) ?m) (dump D)") auto
  with w show ?thesis by blast
qed

theorem write_then_read_roundtrip_witness:
  "ready demo_storage
   \<and> (mode_m demo_storage = ''r+'' \<or> mode_m demo_storage = ''rb+'')
   \<and> demo_fs (path_m demo_storage) = Some (File [])
   \<and> length ([] :: string) \<le> length (brace_dump ''ab'')
   \<and> brace_dump ''ab'' \<noteq> []
   \<and> fst (brace_extract (fresh_stream (path_m demo_storage) (omode (handle_m demo_storage)))
            (brace_dump ''ab'')) = Inr ''ab''
   \<and> (\<exists>s' fs'. JSONStorage_write brace_dump demo_storage ''ab'' demo_fs = (Inr (), s', fs')
           \<and> fst (JSONStorage_read brace_extract s' fs') = Inr (Some ''ab''))"
proof -
  have 1: "ready demo_storage" by (rule demo_ready)
  have 2: "mode_m demo_storage = ''r+'' \<or> mode_m demo_storage = ''rb+''"
    by (simp add: demo_storage_def)
  have 3: "demo_fs (path_m demo_storage) = Some (File [])"
    by (simp add: demo_storage_def demo_fs_def)
  have 4: "length ([] :: string) \<le> length (brace_dump ''ab'')" by simp
  have 5: "brace_dump ''ab'' \<noteq> []" by (simp add: brace_dump_def)
  have 6: "fst (brace_extract (fresh_stream (path_m demo_storage) (omode (handle_m demo_storage)))
            (brace_dump ''ab'')) = Inr ''ab''"
    by (simp add: brace_extract_def brace_dump_def fresh_stream_def)
  from write_then_read_roundtrip [of demo_storage demo_fs "[]" brace_dump "''ab''" brace_extract]
    1 2 3 4 5 6
  show ?thesis by blast
qed

text \<open>
  Claim C2. When the serialization of \<open>B\<close> is strictly shorter than that of \<open>A\<close>,
  writing \<open>A\<close> and then \<open>B\<close> through a handle in working order opened read-write
  succeeds twice and leaves in the file the text of \<open>B\<close> followed by the stale tail of
  the text of \<open>A\<close> (and by whatever the file held beyond it); that tail is not empty,
  and the \<^verbatim>\<open>read()\<close> that follows fails with ParseError. The parse is the one the spec
  describes, over any grammar of values that reads the text of \<open>B\<close> off the front of
  what follows it; the text of \<open>A\<close> ends in a character that is not white space, as
  a closing brace.
\<close>

theorem shorter_write_then_read_fails:
  assumes "ready s"
    and "mode_m s = ''r+'' \<or> mode_m s = ''rb+''"
    and "fs (path_m s) = Some (File old)"
    and "length (dump B) < length (dump A)"
    and "\<forall>rest. value_of (dump B @ rest) = Some (B, rest)"
    and "\<not> is_space (last (dump A))"
  shows "\<exists>s1 fs1 s2 fs2.
           JSONStorage_write dump s A fs = (Inr (), s1, fs1)
         \<and> JSONStorage_write dump s1 B fs1 = (Inr (), s2, fs2)
         \<and> fs2 (path_m s)
             = Some (File (dump B @ drop (length (dump B)) (dump A) @ drop (length (dump A)) old))
         \<and> drop (length (dump B)) (dump A) \<noteq> []
         \<and> fst (JSONStorage_read (document_extract value_of leave) s2 fs2) = Inl parse_error"
proof -
  let ?p = "path_m s" and ?m = "omode (handle_m s)"
  let ?s1 = "s\<lparr>handle_m := fresh_stream ?p ?m\<rparr>"
  let ?c1 = "dump A @ drop (length (dump A)) old"
  let ?fs1 = "fs(?p \<mapsto> File ?c1)"
  let ?stale = "drop (length (dump B)) (dump A)"
  let ?rest = "?stale @ drop (length (dump A)) old"
  let ?c2 = "dump B @ ?rest"
  let ?fs2 = "?fs1(?p \<mapsto> File ?c2)"
  from assms(1) have "modeToOpenMode (mode_m s) = Inr ?m"
    by (simp add: ready_def)
  with assms(2) have out: "ios_out \<in> ?m"
    by (simp add: modeToOpenMode_out)
  have w1: "JSONStorage_write dump s A fs = (Inr (), ?s1, ?fs1)"
    using write_ready [of s fs old dump A] assms(1,3) out by simp
  have r1: "ready ?s1"
    using assms(1) by (rule ready_after_write)
  have out1: "ios_out \<in> omode (handle_m ?s1)"
    using out by (simp add: fresh_stream_def)
  have "drop (length (dump B)) ?c1 = ?rest"
    using assms(4) by simp
  then have w2: "JSONStorage_write dump ?s1 B ?fs1 = (Inr (), ?s1, ?fs2)"
    using write_ready [of ?s1 ?fs1 ?c1 dump B] r1 out1 by (simp add: fresh_stream_def)
  have stale: "?stale \<noteq> []"
    using assms(4) by simp
  have "last ?stale = last (dump A)"
    using assms(4) by (simp add: last_drop)
  with stale have "last (dump A) \<in> set ?rest"
    using last_in_set [of ?stale] by simp
  with assms(6) have visible: "\<not> list_all is_space ?rest"
    by (auto simp: list_all_iff)
  have "value_of ?c2 = Some (B, ?rest)"
    using assms(5) by blast
  with visible have parse: "parse_document value_of ?c2 = Inl parse_error"
    by (simp add: parse_document_def)
  have "JSONStorage_read (document_extract value_of leave) ?s1 ?fs2 =
         (case document_extract value_of leave (fresh_stream ?p ?m) ?c2 of
            (Inl e, h) \<Rightarrow> (Inl e, ?s1\<lparr>handle_m := h\<rparr>)
          | (Inr d, h) \<Rightarrow> (Inr (Some d), ?s1\<lparr>handle_m := h\<rparr>))"
    by (rule read_fresh) (use stale in simp_all)
  then have rd: "fst (JSONStorage_read (document_extract value_of leave) ?s1 ?fs2)
                 = Inl parse_error"
    using parse by (simp add: document_extract_def fresh_stream_def)
  have "?fs2 ?p = Some (File ?c2)" by simp
  with w1 w2 stale rd show ?thesis by blast
qed

theorem shorter_write_then_read_fails_witness:
  "ready demo_storage
   \<and> (mode_m demo_storage = ''r+'' \<or> mode_m demo_storage = ''rb+'')
   \<and> demo_fs (path_m demo_storage) = Some (File [])
   \<and> length (brace_dump ''b'') < length (brace_dump ''aaaa'')
   \<and> (\<forall>rest. brace_value (brace_dump ''b'' @ rest) = Some (''b'', rest))
   \<and> \<not> is_space (last (brace_dump ''aaaa''))
   \<and> (\<exists>s1 fs1 s2 fs2.
           JSONStorage_write brace_dump demo_storage ''aaaa'' demo_fs = (Inr (), s1, fs1)
         \<and> JSONStorage_write brace_dump s1 ''b'' fs1 = (Inr (), s2, fs2)
         \<and> fs2 ''db.json'' = Some (File ''{b}aa}'')
         \<and> fst (JSONStorage_read (document_extract brace_value (\<lambda>st bytes. st)) s2 fs2)
             = Inl parse_error)"
proof -
  have 1: "ready demo_storage" by (rule demo_ready)
  have 2: "mode_m demo_storage = ''r+'' \<or> mode_m demo_storage = ''rb+''"
    by (simp add: demo_storage_def)
  have 3: "demo_fs (path_m demo_storage) = Some (File [])"
    by (simp add: demo_storage_def demo_fs_def)
  have 4: "length (brace_dump ''b'') < length (brace_dump ''aaaa'')"
    by (simp add: brace_dump_def)
  have 5: "\<forall>rest. brace_value (brace_dump ''b'' @ rest) = Some (''b'', rest)"
    by (simp add: brace_value_def brace_dump_def)
  have 6: "\<not> is_space (last (brace_dump ''aaaa''))"
    by (simp add: brace_dump_def is_space_def)
  have p: "path_m demo_storage = ''db.json''"
    by (simp add: demo_storage_def)
  have c: "brace_dump ''b'' @ drop (length (brace_dump ''b'')) (brace_dump ''aaaa'')
             @ drop (length (brace_dump ''aaaa'')) [] = ''{b}aa}''"
    by (simp add: brace_dump_def)
  from shorter_write_then_read_fails
         [of demo_storage demo_fs "[]" brace_dump "''b''" "''aaaa''" brace_value "\<lambda>st bytes. st"]
       1 2 3 4 5 6
  obtain s1 fs1 s2 fs2 where
    "JSONStorage_write brace_dump demo_storage ''aaaa'' demo_fs = (Inr (), s1, fs1)"
    "JSONStorage_write brace_dump s1 ''b'' fs1 = (Inr (), s2, fs2)"
    "fs2 ''db.json'' = Some (File ''{b}aa}'')"
    "fst (JSONStorage_read (document_extract brace_value (\<lambda>st bytes. st)) s2 fs2)
       = Inl parse_error"
    unfolding p c by blast
  with 1 2 3 4 5 6 show ?thesis by blast
qed

section \<open>Empty files, closing, and the memory store\<close>

text \<open>
  Claim C3. When the stream of a handle is open on a file of size zero and has neither
  failbit nor badbit set, \<^verbatim>\<open>read()\<close> returns absent, \<open>Inr None\<close>, which is a result and
  not an error; the JSON library is not consulted.
\<close>

theorem read_empty_file_absent:
  assumes "fd (handle_m s) = Some p" and "fs p = Some (File [])"
    and "\<not> badbit (handle_m s)" and "\<not> failbit (handle_m s)"
  shows "fst (JSONStorage_read extract s fs) = Inr None"
  using assms
  by (simp add: JSONStorage_read_def seekg_def tellg_def seek_target_def stream_bytes_def
      good_def is_open_def sentry_def)

theorem read_empty_file_absent_witness:
  "fd (handle_m demo_storage) = Some ''db.json'' \<and> demo_fs ''db.json'' = Some (File [])
   \<and> \<not> badbit (handle_m demo_storage) \<and> \<not> failbit (handle_m demo_storage)
   \<and> fst (JSONStorage_read brace_extract demo_storage demo_fs) = Inr None"
proof -
  have 1: "fd (handle_m demo_storage) = Some ''db.json''"
    and 3: "\<not> badbit (handle_m demo_storage)" and 4: "\<not> failbit (handle_m demo_storage)"
    by (simp_all add: demo_storage_def fresh_stream_def)
  have 2: "demo_fs ''db.json'' = Some (File [])"
    by (simp add: demo_fs_def)
  from read_empty_file_absent [of demo_storage "''db.json''" demo_fs brace_extract] 1 2 3 4
  show ?thesis by blast
qed

text \<open>
  Claim C7. \<^verbatim>\<open>close()\<close> cannot raise (it returns the handle, there is no error branch);
  closing twice is closing once, the handle is closed afterwards, a closed handle is
  left as it is, and all \<^verbatim>\<open>close()\<close> ever changes is that the stream has no file.
\<close>

theorem JSONStorage_close_idempotent:
  "JSONStorage_close (JSONStorage_close s) = JSONStorage_close s
   \<and> \<not> is_open (handle_m (JSONStorage_close s))
   \<and> (\<not> is_open (handle_m s) \<longrightarrow> JSONStorage_close s = s)
   \<and> JSONStorage_close s = s\<lparr>handle_m := (handle_m s)\<lparr>fd := None\<rparr>\<rparr>"
  by (simp add: JSONStorage_close_def fstream_close_def is_open_def)

theorem JSONStorage_close_idempotent_witness:
  "JSONStorage_close (JSONStorage_close demo_storage) = JSONStorage_close demo_storage
   \<and> \<not> is_open (handle_m (JSONStorage_close demo_storage))
   \<and> \<not> is_open (handle_m (JSONStorage_close demo_storage))
   \<and> JSONStorage_close (JSONStorage_close demo_storage) = JSONStorage_close demo_storage"
  using JSONStorage_close_idempotent [of demo_storage]
    JSONStorage_close_idempotent [of "JSONStorage_close demo_storage"]
  by blast

text \<open>
  Claim C4. A new MemoryStorage reads as absent; after any sequence of writes that ends
  in \<^verbatim>\<open>write(D)\<close>, from any state, \<^verbatim>\<open>read()\<close> returns \<open>D\<close>. A write has no error
  branch.
\<close>

theorem MemoryStorage_read_last_write:
  "MemoryStorage_read (MemoryStorage_new :: 'd MemoryStorage) = None
   \<and> MemoryStorage_read (MemoryStorage_write (foldl MemoryStorage_write (s :: 'd MemoryStorage) ds) D)
       = Some D"
  by (simp add: MemoryStorage_read_def MemoryStorage_new_def MemoryStorage_write_def)

end
